theory Spec2Isabelle
  imports Main "HOL-Library.Word" "HOL-Library.Multiset"
begin

section \<open>Data model\<close>

text \<open>
  The C++ type \<open>int\<close> is modelled by \<open>int\<close>: signed overflow is undefined behaviour
  in C++, so the embedding describes the executions in which it does not happen.
  \<open>size_t\<close> values that count elements of a vector are \<open>nat\<close>; the traffic counters,
  which are only ever incremented, are \<open>64 word\<close> so that \<open>+=\<close> wraps as it does
  on \<open>size_t\<close>.
\<close>

datatype error =
    lbann_exception string
  | DivisionByZero
  | ShuffledIndicesOutOfRange
  | ImageListOutOfRange
  | PixelsOutOfRange
  | MatOutOfRange

text \<open>
  The global generator \<open>get_generator()\<close> is a \<open>std::mt19937\<close>; the standard library
  is outside the repository, so the generator is the sequence of its future outputs
  together with the number of outputs consumed so far.
\<close>

record rng_gen =
  rng_outputs :: "nat \<Rightarrow> nat"
  rng_index :: nat

text \<open>One uniformly distributed draw from \<open>{0..b}\<close>, advancing the generator.\<close>

definition uniform_int :: "nat \<Rightarrow> rng_gen \<Rightarrow> nat \<times> rng_gen" where
  "uniform_int b g =
     (rng_outputs g (rng_index g) mod (b + 1), g\<lparr>rng_index := rng_index g + 1\<rparr>)"

definition iter_swap :: "nat \<Rightarrow> nat \<Rightarrow> 'a list \<Rightarrow> 'a list" where
  "iter_swap i j xs = xs[i := xs ! j, j := xs ! i]"

text \<open>
  \<open>std::shuffle(first, last, g)\<close>: for every position \<open>i\<close> from \<open>1\<close> to \<open>n - 1\<close>
  the element at \<open>i\<close> is exchanged with the one at a drawn position in \<open>{0..i}\<close>.
\<close>

definition std_shuffle :: "'a list \<Rightarrow> rng_gen \<Rightarrow> 'a list \<times> rng_gen" where
  "std_shuffle xs g =
     fold (\<lambda>i (ys, h). let (j, h') = uniform_int i h in (iter_swap i j ys, h'))
       [1..<length xs] (xs, g)"

text \<open>The fields of class \<open>DataReader\<close> (lbann_data_reader.hpp), in declaration order.\<close>

record DataReader =
  BatchSize :: int
  CurrentPos :: int
  m_shuffle :: int
  m_stride :: int
  m_base_offset :: int
  m_model_offset :: int
  m_use_alt_last_mini_batch_size :: bool
  m_last_mini_batch_threshold :: int
  m_last_mini_batch_size :: int
  m_last_mini_batch_stride :: int
  ShuffledIndices :: "int list"
  m_unused_indices :: "int list"

section \<open>Cursor operations of DataReader\<close>

definition getNumData :: "'a DataReader_scheme \<Rightarrow> int" where
  "getNumData r = int (length (ShuffledIndices r))"


definition getBatchSize :: "'a DataReader_scheme \<Rightarrow> int" where
  "getBatchSize r =
     (if m_use_alt_last_mini_batch_size r \<and> CurrentPos r \<ge> m_last_mini_batch_threshold r
      then m_last_mini_batch_size r
      else BatchSize r)"

definition get_next_position :: "'a DataReader_scheme \<Rightarrow> int" where
  "get_next_position r =
     (if m_use_alt_last_mini_batch_size r
         \<and> CurrentPos r + m_stride r > m_last_mini_batch_threshold r
      then CurrentPos r + m_last_mini_batch_stride r
      else CurrentPos r + m_stride r)"

text \<open>
  \<open>update()\<close>: the result is the returned flag, the reader after the call and the
  global generator after the call.
\<close>

definition update ::
  "'a DataReader_scheme \<Rightarrow> rng_gen \<Rightarrow> bool \<times> 'a DataReader_scheme \<times> rng_gen" where
  "update r g =
     (let r1 = (if m_use_alt_last_mini_batch_size r
                   \<and> CurrentPos r + m_stride r > m_last_mini_batch_threshold r
                then r\<lparr>CurrentPos := CurrentPos r + m_last_mini_batch_stride r\<rparr>
                else r\<lparr>CurrentPos := CurrentPos r + m_stride r\<rparr>)
      in if CurrentPos r1 < int (length (ShuffledIndices r1)) then (True, r1, g)
         else
           (let (r2, g2) =
                  (if m_shuffle r1 \<noteq> 0
                   then (let (xs, g') = std_shuffle (ShuffledIndices r1) g
                         in (r1\<lparr>ShuffledIndices := xs\<rparr>, g'))
                   else (r1, g))
            in (False, r2\<lparr>CurrentPos := m_base_offset r2 + m_model_offset r2\<rparr>, g2)))"



section \<open>Index sets of DataReader\<close>

text \<open>
  Modelled from the spec: the macro \<open>__MIN\<close> of lbann_base.hpp, which is not among
  the sources. The specification says that the requested count is clamped to the
  current number of used indices.
\<close>

definition lbann_MIN :: "nat \<Rightarrow> nat \<Rightarrow> nat" where
  "lbann_MIN a b = min a b"

text \<open>
  \<open>select_subset_of_data\<close>. \<open>std::sort\<close> on a vector of \<open>int\<close> gives the
  ascending arrangement, which is \<open>sort\<close>. After the clamp the count is at most the
  size, so \<open>resize\<close> keeps the leading elements.
\<close>

definition select_subset_of_data ::
  "nat \<Rightarrow> bool \<Rightarrow> 'a DataReader_scheme \<Rightarrow> rng_gen \<Rightarrow> 'a DataReader_scheme \<times> rng_gen" where
  "select_subset_of_data max_sample_count firstN r g =
     (let num_data_samples = nat (getNumData r)
      in if max_sample_count \<noteq> 0 then
           (let m = lbann_MIN max_sample_count num_data_samples;
                (xs, g1) = (if \<not> firstN then std_shuffle (ShuffledIndices r) g
                            else (ShuffledIndices r, g));
                unused = drop m xs;
                used = take m xs
            in if \<not> firstN
               then (r\<lparr>ShuffledIndices := sort used, m_unused_indices := sort unused\<rparr>, g1)
               else (r\<lparr>ShuffledIndices := used, m_unused_indices := unused\<rparr>, g1))
         else (r, g))"

section \<open>The communication layer\<close>

text \<open>
  The fields of class \<open>lbann_comm\<close> that are plain data. \<open>rank_in_world\<close> is what
  \<open>mpi::Rank(mpi::COMM_WORLD)\<close> returns on this process.
\<close>

record lbann_comm =
  num_models :: int
  procs_per_model :: int
  model_rank :: int
  rank_in_model :: int
  rank_in_world :: int
  bytes_sent :: "64 word"
  bytes_received :: "64 word"

definition get_world_master :: "lbann_comm \<Rightarrow> int" where
  "get_world_master c = 0"

definition am_world_master :: "lbann_comm \<Rightarrow> bool" where
  "am_world_master c = (rank_in_world c = get_world_master c)"

text \<open>
  The typed primitives, on the process that calls them. \<open>sizeof_T\<close> is \<open>sizeof(T)\<close>
  and \<open>delivered\<close> is what the MPI call leaves in the buffer of this process (on the
  root, its own value).
\<close>

definition intermodel_broadcast ::
  "64 word \<Rightarrow> int \<Rightarrow> 'v \<Rightarrow> lbann_comm \<Rightarrow> 'v \<times> lbann_comm" where
  "intermodel_broadcast sizeof_T root delivered c =
     (delivered,
      if rank_in_model c = root then c\<lparr>bytes_sent := bytes_sent c + sizeof_T\<rparr>
      else c\<lparr>bytes_received := bytes_received c + sizeof_T\<rparr>)"

definition model_broadcast ::
  "64 word \<Rightarrow> int \<Rightarrow> 'v \<Rightarrow> lbann_comm \<Rightarrow> 'v \<times> lbann_comm" where
  "model_broadcast sizeof_T root delivered c =
     (delivered,
      if rank_in_model c = root then c\<lparr>bytes_sent := bytes_sent c + sizeof_T\<rparr>
      else c\<lparr>bytes_received := bytes_received c + sizeof_T\<rparr>)"

text \<open>\<open>send\<close> and \<open>recv\<close> of \<open>cnt\<close> elements (the parameter \<open>count\<close>, converted to \<open>size_t\<close>).\<close>

definition send :: "64 word \<Rightarrow> int \<Rightarrow> lbann_comm \<Rightarrow> lbann_comm" where
  "send sizeof_T cnt c = c\<lparr>bytes_sent := bytes_sent c + sizeof_T * word_of_int cnt\<rparr>"

definition recv :: "64 word \<Rightarrow> 'v list \<Rightarrow> int \<Rightarrow> lbann_comm \<Rightarrow> 'v list \<times> lbann_comm" where
  "recv sizeof_T delivered cnt c =
     (delivered, c\<lparr>bytes_received := bytes_received c + sizeof_T * word_of_int cnt\<rparr>)"

text \<open>
  The broadcast to an arbitrary set of ranks: the group is built from \<open>root\<close> followed
  by \<open>dests\<close>, a communicator is created for it, the data is broadcast from the
  translated root and both are freed. No statement of the body touches a field of the
  object.
\<close>

definition broadcast ::
  "64 word \<Rightarrow> 'v list \<Rightarrow> int \<Rightarrow> int list \<Rightarrow> int \<Rightarrow> lbann_comm \<Rightarrow> 'v list \<times> lbann_comm" where
  "broadcast sizeof_T delivered cnt dests root c =
     (let ranks = root # dests
      in (delivered, c))"

section \<open>Distribution of the last mini-batch\<close>

text \<open>
  Division of \<open>int\<close> in C++ truncates towards zero and is undefined for a zero
  divisor, which is an error of the model.
\<close>

definition c_div :: "int \<Rightarrow> int \<Rightarrow> error + int" where
  "c_div a b = (if b = 0 then Inl DivisionByZero else Inr (sgn a * sgn b * (\<bar>a\<bar> div \<bar>b\<bar>)))"

text \<open>
  \<open>rint\<close> is applied to the quotient of two \<open>int\<close> values, that is to an \<open>int\<close>
  converted to \<open>double\<close>; the result is converted back to \<open>int\<close>. An integral
  \<open>double\<close> is its own nearest integer.
\<close>

definition rint_of_int :: "int \<Rightarrow> int" where
  "rint_of_int q = q"

definition calculate_multi_model_data_distribution ::
  "lbann_comm \<Rightarrow> 'a DataReader_scheme \<Rightarrow> error + 'a DataReader_scheme" where
  "calculate_multi_model_data_distribution comm r =
     (let max_mini_batch_size = BatchSize r in
      (case c_div (m_stride r) (num_models comm) of
         Inl e \<Rightarrow> Inl e
       | Inr per_model \<Rightarrow>
      (case c_div per_model max_mini_batch_size of
         Inl e \<Rightarrow> Inl e
       | Inr num_parallel_readers_per_model \<Rightarrow>
      (case c_div (getNumData r) (m_stride r) of
         Inl e \<Rightarrow> Inl e
       | Inr whole_quot \<Rightarrow>
      (let num_whole_mini_batches = rint_of_int whole_quot in
      (case c_div (getNumData r - num_whole_mini_batches * m_stride r)
              (num_models comm * num_parallel_readers_per_model) of
         Inl e \<Rightarrow> Inl e
       | Inr partial0 \<Rightarrow>
      (let adjustment0 = getNumData r - num_whole_mini_batches * m_stride r
                 - partial0 * num_models comm * num_parallel_readers_per_model;
           (world_master_remainder_data, world_master_remainder_adjustment) =
              (if am_world_master comm then (adjustment0, 0) else (0, adjustment0));
           partial_mini_batch_size = partial0 + world_master_remainder_data;
           full0 = (num_models comm - model_rank comm) * num_parallel_readers_per_model;
           last0 = model_rank comm * num_parallel_readers_per_model;
           (num_readers_at_full_stride, num_readers_at_last_stride) =
              (if rank_in_model comm < num_parallel_readers_per_model
               then (full0 - rank_in_model comm, last0 + rank_in_model comm)
               else (full0, last0))
       in Inr (r\<lparr>m_last_mini_batch_threshold := m_stride r * num_whole_mini_batches,
                 m_last_mini_batch_size := partial_mini_batch_size,
                 m_last_mini_batch_stride :=
                   max_mini_batch_size * num_readers_at_full_stride
                   + partial_mini_batch_size * num_readers_at_last_stride
                   + world_master_remainder_adjustment\<rparr>))))))))"

text \<open>\<open>setup(base_offset, stride, model_offset, comm)\<close>; \<open>None\<close> is the null pointer.\<close>

definition DataReader_setup ::
  "int \<Rightarrow> int \<Rightarrow> int \<Rightarrow> lbann_comm option \<Rightarrow> 'a DataReader_scheme \<Rightarrow> rng_gen
   \<Rightarrow> error + ('a DataReader_scheme \<times> rng_gen)" where
  "DataReader_setup base_offset stride model_offset comm r g =
     (let r1 = r\<lparr>m_model_offset := model_offset, m_base_offset := base_offset,
                 m_stride := stride\<rparr>
      in case (case comm of
                 None \<Rightarrow> Inr r1
               | Some c \<Rightarrow>
                   (case calculate_multi_model_data_distribution c r1 of
                      Inl e \<Rightarrow> Inl e
                    | Inr r2 \<Rightarrow> Inr (r2\<lparr>m_use_alt_last_mini_batch_size := True\<rparr>))) of
           Inl e \<Rightarrow> Inl e
         | Inr r3 \<Rightarrow>
             (let r4 = r3\<lparr>CurrentPos := m_base_offset r3 + m_model_offset r3\<rparr>
              in if m_shuffle r4 \<noteq> 0
                 then (let (xs, g') = std_shuffle (ShuffledIndices r4) g
                       in Inr (r4\<lparr>ShuffledIndices := xs\<rparr>, g'))
                 else Inr (r4, g)))"

text \<open>
  What the specification says step 2 of the distribution computes: the quotient
  \<open>total_samples / stride\<close> rounded to the nearest integer, ties to the even one.
  It is stated for a positive stride.
\<close>

definition spec_whole_batches :: "int \<Rightarrow> int \<Rightarrow> int" where
  "spec_whole_batches total_samples stride =
     (let q = total_samples div stride; rest = total_samples mod stride
      in if 2 * rest < stride then q
         else if 2 * rest > stride then q + 1
         else if even q then q else q + 1)"

section \<open>The ImageNet reader\<close>






















section \<open>Sample states\<close>

text \<open>A reader as its constructor leaves it, with the indices \<open>0..n-1\<close> loaded.\<close>

definition fresh_reader :: "int \<Rightarrow> nat \<Rightarrow> DataReader" where
  "fresh_reader batchSize n = \<lparr>BatchSize = batchSize, CurrentPos = 0, m_shuffle = 0,
     m_stride = batchSize, m_base_offset = 0, m_model_offset = 0,
     m_use_alt_last_mini_batch_size = False, m_last_mini_batch_threshold = 0,
     m_last_mini_batch_size = batchSize, m_last_mini_batch_stride = 0,
     ShuffledIndices = map int [0..<n], m_unused_indices = []\<rparr>"

definition reader_1005 :: DataReader where
  "reader_1005 = fresh_reader 10 1005"

definition reader_1007 :: DataReader where
  "reader_1007 = fresh_reader 10 1007"

text \<open>One model of one process: the world master.\<close>

definition single_comm :: lbann_comm where
  "single_comm = \<lparr>num_models = 1, procs_per_model = 1, model_rank = 0, rank_in_model = 0,
     rank_in_world = 0, bytes_sent = 0, bytes_received = 0\<rparr>"

text \<open>Rank 0 and rank 1 of one model of three processes, with cleared counters.\<close>

definition root_comm :: lbann_comm where
  "root_comm = \<lparr>num_models = 1, procs_per_model = 3, model_rank = 0, rank_in_model = 0,
     rank_in_world = 0, bytes_sent = 0, bytes_received = 0\<rparr>"

definition peer_comm :: lbann_comm where
  "peer_comm = \<lparr>num_models = 1, procs_per_model = 3, model_rank = 0, rank_in_model = 1,
     rank_in_world = 1, bytes_sent = 0, bytes_received = 0\<rparr>"

text \<open>
  The second of two parallel readers of one model (process 1 of 2), and its reader over
  ten samples with batch size 2 and stride 4 as \<open>setup(2, 4, 0, comm)\<close> and one
  \<open>update()\<close> leave it: threshold 8, last size 1, last stride 3, cursor at 6.
\<close>

definition second_reader_comm :: lbann_comm where
  "second_reader_comm = \<lparr>num_models = 1, procs_per_model = 2, model_rank = 0,
     rank_in_model = 1, rank_in_world = 1, bytes_sent = 0, bytes_received = 0\<rparr>"

definition reader_at_6 :: DataReader where
  "reader_at_6 = \<lparr>BatchSize = 2, CurrentPos = 6, m_shuffle = 0, m_stride = 4,
     m_base_offset = 2, m_model_offset = 0, m_use_alt_last_mini_batch_size = True,
     m_last_mini_batch_threshold = 8, m_last_mini_batch_size = 1,
     m_last_mini_batch_stride = 3, ShuffledIndices = map int [0..<10],
     m_unused_indices = []\<rparr>"


text \<open>A reader whose six indices are not in ascending order, and a generator.\<close>

definition six_reader :: DataReader where
  "six_reader = \<lparr>BatchSize = 2, CurrentPos = 0, m_shuffle = 1, m_stride = 2,
     m_base_offset = 0, m_model_offset = 0, m_use_alt_last_mini_batch_size = False,
     m_last_mini_batch_threshold = 0, m_last_mini_batch_size = 2,
     m_last_mini_batch_stride = 0, ShuffledIndices = [40, 10, 50, 30, 20, 60],
     m_unused_indices = [70]\<rparr>"

definition sample_gen :: rng_gen where
  "sample_gen = \<lparr>rng_outputs = (\<lambda>i. 7 * i + 3), rng_index = 0\<rparr>"





section \<open>Permutation by shuffling\<close>

lemma mset_iter_swap: "i < length xs \<Longrightarrow> j < length xs \<Longrightarrow> mset (iter_swap i j xs) = mset xs"
  unfolding iter_swap_def by (simp add: mset_swap)

lemma length_iter_swap: "length (iter_swap i j xs) = length xs"
  by (simp add: iter_swap_def)

lemma uniform_int_le: "fst (uniform_int b g) \<le> b"
  by (simp add: uniform_int_def)

lemma shuffle_fold_mset:
  "\<forall>i \<in> set is. i < length xs \<Longrightarrow>
   mset (fst (fold (\<lambda>i (ys, h). let (j, h') = uniform_int i h in (iter_swap i j ys, h')) is (xs, g))) = mset xs"
proof (induction "is" arbitrary: xs g)
  case Nil
  then show ?case by simp
next
  case (Cons i "is")
  obtain j h' where d: "uniform_int i g = (j, h')" by (cases "uniform_int i g")
  have jle: "j \<le> i" using uniform_int_le [of i g] d by simp
  have il: "i < length xs" using Cons.prems by simp
  have "mset (fst (fold (\<lambda>i (ys, h). let (j, h') = uniform_int i h in (iter_swap i j ys, h')) is (iter_swap i j xs, h'))) = mset (iter_swap i j xs)"
    using Cons.prems by (intro Cons.IH) (simp add: length_iter_swap)
  also have "\<dots> = mset xs" using il jle by (simp add: mset_iter_swap)
  finally show ?case by (simp add: d)
qed

lemma mset_std_shuffle: "mset (fst (std_shuffle xs g)) = mset xs"
  unfolding std_shuffle_def by (rule shuffle_fold_mset) simp

section \<open>Refinement of the cursor advance\<close>

text \<open>
  C10. \<open>get_next_position()\<close> is the value that \<open>update()\<close> gives to the cursor
  before its wraparound test: the position plus the last-mini-batch stride when the
  alternative mode is on and position plus stride exceeds the threshold, the position
  plus the stride otherwise. \<open>update()\<close> returns true and keeps that value when it is
  below the number of used indices, and otherwise returns false after the reset.
\<close>

theorem get_next_position_is_update_advance:
  "get_next_position r =
     (if m_use_alt_last_mini_batch_size r
         \<and> CurrentPos r + m_stride r > m_last_mini_batch_threshold r
      then CurrentPos r + m_last_mini_batch_stride r
      else CurrentPos r + m_stride r)
   \<and> fst (update r g) = (get_next_position r < int (length (ShuffledIndices r)))
   \<and> (if get_next_position r < int (length (ShuffledIndices r))
      then update r g = (True, r\<lparr>CurrentPos := get_next_position r\<rparr>, g)
      else CurrentPos (fst (snd (update r g))) = m_base_offset r + m_model_offset r)"
  by (simp add: get_next_position_def update_def Let_def split: prod.splits)

section \<open>The alternative last mini-batch\<close>

lemma reader_at_6_reached:
  "DataReader_setup 2 4 0 (Some second_reader_comm) (fresh_reader 2 10) sample_gen
     = Inr (reader_at_6\<lparr>CurrentPos := 2\<rparr>, sample_gen)
   \<and> update (reader_at_6\<lparr>CurrentPos := 2\<rparr>) sample_gen = (True, reader_at_6, sample_gen)"
  by (simp add: DataReader_setup_def calculate_multi_model_data_distribution_def
      second_reader_comm_def fresh_reader_def reader_at_6_def c_div_def getNumData_def
      rint_of_int_def am_world_master_def get_world_master_def update_def Let_def)

text \<open>
  C3, as stated, fails on \<open>getBatchSize()\<close>: its test is that the cursor has reached
  the threshold, not that the cursor plus the stride exceeds it. The second reader of
  two, at position 6 with stride 4 and threshold 8, satisfies the stride condition and
  still has the full batch size 2, not the last size 1.
\<close>

theorem getBatchSize_before_threshold_counterexample:
  "m_use_alt_last_mini_batch_size reader_at_6
   \<and> CurrentPos reader_at_6 + m_stride reader_at_6 > m_last_mini_batch_threshold reader_at_6
   \<and> getBatchSize reader_at_6 = 2
   \<and> m_last_mini_batch_size reader_at_6 = 1"
  by (simp add: reader_at_6_def getBatchSize_def)

text \<open>
  C3 (amended). When the alternative mode is on and the cursor plus the stride exceeds
  the threshold, \<open>update()\<close> advances the cursor by the last-mini-batch stride
  instead of the stride (and resets it to base offset plus model offset when the
  advanced cursor is not below the number of used indices); \<open>getBatchSize()\<close>
  returns the last-mini-batch size exactly when the cursor has reached the threshold
  and the batch size before that; and when the last-mini-batch stride is not negative
  the stride condition holds again after every \<open>update()\<close> that returns true, that
  is until the wraparound.
\<close>

theorem alt_last_batch_mode:
  assumes "m_use_alt_last_mini_batch_size r"
    and "CurrentPos r + m_stride r > m_last_mini_batch_threshold r"
  shows "get_next_position r = CurrentPos r + m_last_mini_batch_stride r
       \<and> (if CurrentPos r + m_last_mini_batch_stride r < int (length (ShuffledIndices r))
          then update r g = (True, r\<lparr>CurrentPos := CurrentPos r + m_last_mini_batch_stride r\<rparr>, g)
          else \<not> fst (update r g)
               \<and> CurrentPos (fst (snd (update r g))) = m_base_offset r + m_model_offset r)
       \<and> getBatchSize r = (if CurrentPos r \<ge> m_last_mini_batch_threshold r
                           then m_last_mini_batch_size r else BatchSize r)
       \<and> (0 \<le> m_last_mini_batch_stride r \<and> fst (update r g) \<longrightarrow>
            m_use_alt_last_mini_batch_size (fst (snd (update r g)))
            \<and> CurrentPos (fst (snd (update r g))) + m_stride (fst (snd (update r g)))
                > m_last_mini_batch_threshold (fst (snd (update r g))))"
  using assms
  by (simp add: get_next_position_def update_def getBatchSize_def Let_def split: prod.splits)

theorem alt_last_batch_mode_witness:
  "get_next_position reader_at_6 = 9
   \<and> update reader_at_6 sample_gen = (True, reader_at_6\<lparr>CurrentPos := 9\<rparr>, sample_gen)
   \<and> getBatchSize reader_at_6 = 2
   \<and> getBatchSize (reader_at_6\<lparr>CurrentPos := 9\<rparr>) = 1"
  using alt_last_batch_mode [of reader_at_6 sample_gen]
  by (simp add: reader_at_6_def getBatchSize_def)

section \<open>Wraparound\<close>





section \<open>Selecting a subset\<close>

text \<open>
  C7. For \<open>0 < k \<le> n\<close>, \<open>select_subset_of_data(k, true)\<close> leaves the first \<open>k\<close>
  used indices, in their order, as the used indices and the other \<open>n - k\<close>, in their
  order, as the unused ones; the generator is not touched.
\<close>

theorem select_first_n:
  assumes "0 < k" and "k \<le> length (ShuffledIndices r)"
  shows "select_subset_of_data k True r g =
           (r\<lparr>ShuffledIndices := take k (ShuffledIndices r),
              m_unused_indices := drop k (ShuffledIndices r)\<rparr>, g)"
  using assms by (simp add: select_subset_of_data_def getNumData_def lbann_MIN_def Let_def)

theorem select_first_n_witness:
  "select_subset_of_data 2 True six_reader sample_gen =
     (six_reader\<lparr>ShuffledIndices := [40, 10], m_unused_indices := [50, 30, 20, 60]\<rparr>,
      sample_gen)"
  using select_first_n [of 2 six_reader sample_gen]
  by (simp add: six_reader_def)

text \<open>
  C6. For \<open>0 < k \<le> n\<close> and used indices without repetition,
  \<open>select_subset_of_data(k, false)\<close> leaves \<open>k\<close> used indices in ascending order,
  the \<open>n - k\<close> unused indices in ascending order, the two disjoint, and their union
  the used indices before the call.
\<close>

theorem select_random_subset:
  assumes k: "0 < k" "k \<le> length (ShuffledIndices r)"
    and d: "distinct (ShuffledIndices r)"
  shows "\<exists>r' g'. select_subset_of_data k False r g = (r', g')
       \<and> length (ShuffledIndices r') = k
       \<and> length (m_unused_indices r') = length (ShuffledIndices r) - k
       \<and> sorted (ShuffledIndices r') \<and> sorted (m_unused_indices r')
       \<and> set (ShuffledIndices r') \<inter> set (m_unused_indices r') = {}
       \<and> set (ShuffledIndices r') \<union> set (m_unused_indices r') = set (ShuffledIndices r)"
proof -
  obtain xs g1 where sh: "std_shuffle (ShuffledIndices r) g = (xs, g1)"
    by (cases "std_shuffle (ShuffledIndices r) g")
  have m: "mset xs = mset (ShuffledIndices r)"
    using mset_std_shuffle [of "ShuffledIndices r" g] sh by simp
  have len: "length xs = length (ShuffledIndices r)"
    using m by (rule mset_eq_length)
  have dx: "distinct xs"
    using m d mset_eq_imp_distinct_iff by blast
  have sx: "set xs = set (ShuffledIndices r)"
    using m by (rule mset_eq_setD)
  have mn: "lbann_MIN k (nat (getNumData r)) = k" and k0: "k \<noteq> 0"
    using k by (simp_all add: getNumData_def lbann_MIN_def)
  have res: "select_subset_of_data k False r g =
          (r\<lparr>ShuffledIndices := sort (take k xs), m_unused_indices := sort (drop k xs)\<rparr>, g1)"
    unfolding select_subset_of_data_def Let_def mn
    by (simp only: k0 sh if_True if_False not_False_eq_True not_True_eq_False split_conv
        simp_thms)
  have "set (take k xs) \<inter> set (drop k xs) = {}"
    using dx by (metis append_take_drop_id distinct_append)
  moreover have "set (take k xs) \<union> set (drop k xs) = set xs"
    by (metis append_take_drop_id set_append)
  ultimately show ?thesis
    unfolding res using k len sx by simp
qed

theorem select_random_subset_witness:
  "\<exists>r' g'. select_subset_of_data 3 False six_reader sample_gen = (r', g')
     \<and> length (ShuffledIndices r') = 3 \<and> length (m_unused_indices r') = 3
     \<and> sorted (ShuffledIndices r') \<and> sorted (m_unused_indices r')
     \<and> set (ShuffledIndices r') \<inter> set (m_unused_indices r') = {}
     \<and> set (ShuffledIndices r') \<union> set (m_unused_indices r') = {40, 10, 50, 30, 20, 60}"
  using select_random_subset [of 3 six_reader sample_gen]
  by (simp add: six_reader_def numeral_3_eq_3)

section \<open>Whole mini-batches\<close>

lemma c_div_nonneg: "0 \<le> a \<Longrightarrow> 0 < b \<Longrightarrow> c_div a b = Inr (a div b)"
  by (cases "a = 0") (simp_all add: c_div_def)

lemma calculate_result:
  assumes "c_div (m_stride r) (num_models c) = Inr pm"
    and "c_div pm (BatchSize r) = Inr p"
    and "c_div (getNumData r) (m_stride r) = Inr w"
    and "c_div (getNumData r - w * m_stride r) (num_models c * p) = Inr q"
  shows "\<exists>r'. calculate_multi_model_data_distribution c r = Inr r'
          \<and> m_last_mini_batch_threshold r' = m_stride r * w
          \<and> m_last_mini_batch_size r' =
               q + (if am_world_master c
                    then getNumData r - w * m_stride r - q * num_models c * p else 0)"
  using assms
  by (simp add: calculate_multi_model_data_distribution_def Let_def rint_of_int_def
      split: prod.splits)

lemma calc_1005:
  "calculate_multi_model_data_distribution single_comm reader_1005 =
     Inr (reader_1005\<lparr>m_last_mini_batch_threshold := 1000, m_last_mini_batch_size := 5,
                     m_last_mini_batch_stride := 10\<rparr>)"
  by (simp add: calculate_multi_model_data_distribution_def single_comm_def reader_1005_def
      fresh_reader_def c_div_def getNumData_def rint_of_int_def am_world_master_def
      get_world_master_def Let_def)

text \<open>
  C1, as stated, fails: the quotient is taken on \<open>int\<close> before \<open>rint\<close> sees it.
  For 1007 samples and stride 10 the threshold is 1000, that is 100 whole mini-batches,
  where rounding to the nearest integer gives 101.
\<close>

theorem whole_batches_round_counterexample:
  "calculate_multi_model_data_distribution single_comm reader_1007 =
     Inr (reader_1007\<lparr>m_last_mini_batch_threshold := 1000, m_last_mini_batch_size := 7,
                     m_last_mini_batch_stride := 10\<rparr>)
   \<and> getNumData reader_1007 = 1007 \<and> m_stride reader_1007 = 10
   \<and> spec_whole_batches 1007 10 = 101"
  by (simp add: calculate_multi_model_data_distribution_def single_comm_def reader_1007_def
      fresh_reader_def c_div_def getNumData_def rint_of_int_def am_world_master_def
      get_world_master_def Let_def spec_whole_batches_def)

text \<open>
  C1 (amended). For a positive stride, a positive number of models and a positive batch
  size with at least one reader per model, the computation succeeds; the number of
  whole mini-batches is the truncated quotient of the number of samples by the stride,
  so that the threshold is at most the number of samples and less than one stride
  below it; and the last mini-batch size is not negative. For 1005 samples, batch size
  10, one model and one reader there are 100 whole mini-batches and a last mini-batch
  of 5.
\<close>

theorem whole_batches_truncate:
  assumes "0 < m_stride r" and "0 < num_models c" and "0 < BatchSize r"
    and "num_models c * BatchSize r \<le> m_stride r"
  shows "\<exists>r'. calculate_multi_model_data_distribution c r = Inr r'
          \<and> m_last_mini_batch_threshold r' = m_stride r * (getNumData r div m_stride r)
          \<and> m_last_mini_batch_threshold r' \<le> getNumData r
          \<and> getNumData r < m_last_mini_batch_threshold r' + m_stride r
          \<and> 0 \<le> m_last_mini_batch_size r'"
proof -
  let ?n = "getNumData r"
  let ?s = "m_stride r"
  let ?m = "num_models c"
  let ?b = "BatchSize r"
  have n0: "0 \<le> ?n" by (simp add: getNumData_def)
  have d1: "c_div ?s ?m = Inr (?s div ?m)"
    using assms by (simp add: c_div_nonneg)
  have pm: "?b \<le> ?s div ?m"
  proof -
    have "?b * ?m \<le> ?s" using assms(4) by (simp add: mult.commute)
    then have "?b * ?m div ?m \<le> ?s div ?m" by (rule zdiv_mono1) (use assms in simp)
    then show ?thesis using assms(2) by simp
  qed
  have d2: "c_div (?s div ?m) ?b = Inr (?s div ?m div ?b)"
    using assms pm by (simp add: c_div_nonneg)
  let ?p = "?s div ?m div ?b"
  have p1: "1 \<le> ?p"
  proof -
    have "?b div ?b \<le> ?s div ?m div ?b" using pm assms(3) by (intro zdiv_mono1) simp_all
    then show ?thesis using assms(3) by simp
  qed
  have d3: "c_div ?n ?s = Inr (?n div ?s)"
    using assms n0 by (simp add: c_div_nonneg)
  let ?w = "?n div ?s"
  have num: "?n - ?w * ?s = ?n mod ?s"
    by (simp add: minus_div_mult_eq_mod)
  have num0: "0 \<le> ?n mod ?s" and numlt: "?n mod ?s < ?s" using assms(1) by simp_all
  have den: "0 < ?m * ?p" using assms(2) p1 by simp
  have d4: "c_div (?n - ?w * ?s) (?m * ?p) = Inr (?n mod ?s div (?m * ?p))"
    unfolding num using num0 den by (rule c_div_nonneg)
  let ?q = "?n mod ?s div (?m * ?p)"
  have q0: "0 \<le> ?q" using num0 den by (simp add: pos_imp_zdiv_nonneg_iff)
  have adj: "?n - ?w * ?s - ?q * ?m * ?p = (?n mod ?s) mod (?m * ?p)"
    unfolding num by (simp add: minus_div_mult_eq_mod mult.assoc)
  have adj0: "0 \<le> (?n mod ?s) mod (?m * ?p)" using den by simp
  obtain r' where res: "calculate_multi_model_data_distribution c r = Inr r'"
    and thr: "m_last_mini_batch_threshold r' = ?s * ?w"
    and sz: "m_last_mini_batch_size r' =
               ?q + (if am_world_master c then ?n - ?w * ?s - ?q * ?m * ?p else 0)"
    using calculate_result [OF d1 d2 d3 d4] by blast
  have sz0: "0 \<le> m_last_mini_batch_size r'"
    unfolding sz adj using q0 adj0 by simp
  have le: "?s * ?w \<le> ?n" using num num0 by (simp add: mult.commute)
  have lt: "?n < ?s * ?w + ?s" using num numlt by (simp add: mult.commute)
  show ?thesis
    using res thr sz0 le lt by auto
qed

theorem whole_batches_truncate_witness:
  "calculate_multi_model_data_distribution single_comm reader_1005 =
     Inr (reader_1005\<lparr>m_last_mini_batch_threshold := 1000, m_last_mini_batch_size := 5,
                     m_last_mini_batch_stride := 10\<rparr>)
   \<and> (\<exists>r'. calculate_multi_model_data_distribution single_comm reader_1005 = Inr r'
          \<and> m_last_mini_batch_threshold r' = 10 * (1005 div 10)
          \<and> 0 \<le> m_last_mini_batch_size r')"
  using whole_batches_truncate [of reader_1005 single_comm] calc_1005
  by (simp add: single_comm_def reader_1005_def fresh_reader_def getNumData_def)

section \<open>Traffic counters\<close>

text \<open>
  C2 at the broadcast to an arbitrary set of ranks: one 4-byte value sent from rank 0
  to ranks 1 and 2 leaves \<open>bytes_sent\<close> of the root and \<open>bytes_received\<close> of a
  destination at 0, where the broadcast within the model, \<open>send\<close> and \<open>recv\<close>
  count 4 on their side.
\<close>

theorem broadcast_leaves_counters:
  "bytes_sent (snd (broadcast 4 [42 :: int] 1 [1, 2] 0 root_comm)) = 0
   \<and> bytes_received (snd (broadcast 4 [42 :: int] 1 [1, 2] 0 peer_comm)) = 0
   \<and> bytes_sent (snd (model_broadcast 4 0 (42 :: int) root_comm)) = 4
   \<and> bytes_received (snd (model_broadcast 4 0 (42 :: int) peer_comm)) = 4
   \<and> bytes_sent (send 4 1 root_comm) = 4
   \<and> bytes_received (snd (recv 4 [42 :: int] 1 peer_comm)) = 4"
  by (simp add: broadcast_def model_broadcast_def send_def recv_def root_comm_def
      peer_comm_def)

section \<open>Loading the catalog\<close>







section \<open>Fetching a mini-batch\<close>











end
